theory Spec2Isabelle
  imports Complex_Main
begin

section \<open>The calibration constants of EyeConfig.h\<close>

text \<open>
  EyeConfig.h declares its calibration as structs of \<^verbatim>\<open>static const\<close> members.
  The two eye-movement structs share one layout (MIN, CENTER, MAX, INVERTED) and the
  four eyelid structs another (OPEN, CLOSED, HALF, INVERTED), so each layout is a record
  and each struct a constant of it. The fields of the movement structs carry the prefix
  \<open>lim\<close> because \<open>MIN\<close> and \<open>MAX\<close> are binders of HOL, and the inversion flag of
  the eyelid structs the prefix \<open>lid\<close> to keep the two records' fields apart. Every
  number is the live value of the member, not the value its comment mentions.
\<close>

record MovementLimits =
  lim_MIN :: int
  lim_CENTER :: int
  lim_MAX :: int
  lim_INVERTED :: bool

record LidLimits =
  OPEN :: int
  CLOSED :: int
  HALF :: int
  lid_INVERTED :: bool

definition HorizontalLimits :: MovementLimits where
  "HorizontalLimits = \<lparr>lim_MIN = 220, lim_CENTER = 345, lim_MAX = 470, lim_INVERTED = True\<rparr>"

definition VerticalLimits :: MovementLimits where
  "VerticalLimits = \<lparr>lim_MIN = 260, lim_CENTER = 342, lim_MAX = 440, lim_INVERTED = False\<rparr>"

definition LeftUpperLid :: LidLimits where
  "LeftUpperLid = \<lparr>OPEN = 300, CLOSED = 410, HALF = 335, lid_INVERTED = False\<rparr>"

definition LeftLowerLid :: LidLimits where
  "LeftLowerLid = \<lparr>OPEN = 280, CLOSED = 400, HALF = 340, lid_INVERTED = True\<rparr>"

definition RightUpperLid :: LidLimits where
  "RightUpperLid = \<lparr>OPEN = 255, CLOSED = 380, HALF = 340, lid_INVERTED = True\<rparr>"

definition RightLowerLid :: LidLimits where
  "RightLowerLid = \<lparr>OPEN = 280, CLOSED = 395, HALF = 325, lid_INVERTED = False\<rparr>"

text \<open>
  The calibration data that the documentation comment above each eyelid struct lists
  (OPEN, CLOSED, HALF; the comments give no inversion flag, so the struct's own is kept).
  These are transcriptions of comments, kept apart from the structs they describe.
\<close>

definition LeftUpperLid_comment :: LidLimits where
  "LeftUpperLid_comment = \<lparr>OPEN = 130, CLOSED = 610, HALF = 370, lid_INVERTED = False\<rparr>"

definition LeftLowerLid_comment :: LidLimits where
  "LeftLowerLid_comment = \<lparr>OPEN = 135, CLOSED = 615, HALF = 375, lid_INVERTED = True\<rparr>"

definition RightUpperLid_comment :: LidLimits where
  "RightUpperLid_comment = \<lparr>OPEN = 115, CLOSED = 595, HALF = 355, lid_INVERTED = True\<rparr>"

definition RightLowerLid_comment :: LidLimits where
  "RightLowerLid_comment = \<lparr>OPEN = 105, CLOSED = 585, HALF = 345, lid_INVERTED = False\<rparr>"

text \<open>Servo channel assignments (the \<^verbatim>\<open>#define SERVO_...\<close> lines).\<close>

definition SERVO_HORIZONTAL :: int where "SERVO_HORIZONTAL = 0"
definition SERVO_VERTICAL :: int where "SERVO_VERTICAL = 1"
definition SERVO_L_UPPER :: int where "SERVO_L_UPPER = 2"
definition SERVO_L_LOWER :: int where "SERVO_L_LOWER = 3"
definition SERVO_R_UPPER :: int where "SERVO_R_UPPER = 4"
definition SERVO_R_LOWER :: int where "SERVO_R_LOWER = 5"

text \<open>struct NunchuckCalibration.\<close>

definition JOY_X_MIN :: int where "JOY_X_MIN = 26"
definition JOY_X_MAX :: int where "JOY_X_MAX = 226"
definition JOY_Y_MIN :: int where "JOY_Y_MIN = 26"
definition JOY_Y_MAX :: int where "JOY_Y_MAX = 226"
definition NunchuckCalibration_CENTER :: int where "NunchuckCalibration_CENTER = 126"

text \<open>struct MotionSettings and the deadzone macro.\<close>

definition EYE_SMOOTHING :: int where "EYE_SMOOTHING = 8"
definition EYELID_SMOOTHING :: int where "EYELID_SMOOTHING = 5"
definition DEADZONE :: int where "DEADZONE = 10"

text \<open>struct SafetyLimits.\<close>

definition ABSOLUTE_MIN_PULSE :: int where "ABSOLUTE_MIN_PULSE = 100"
definition ABSOLUTE_MAX_PULSE :: int where "ABSOLUTE_MAX_PULSE = 650"
definition MAX_DELTA_PER_UPDATE :: int where "MAX_DELTA_PER_UPDATE = 50"
definition MIN_UPDATE_INTERVAL_MS :: int where "MIN_UPDATE_INTERVAL_MS = 20"

subsection \<open>The data invariants, read on the structs\<close>

text \<open>
  A movement struct states its bounds itself (MIN, MAX). An eyelid struct states only
  its two end positions, so its travel runs from the smaller of OPEN and CLOSED to the
  larger; those two are the bounds of an eyelid channel.
\<close>

definition lid_lower :: "LidLimits \<Rightarrow> int" where
  "lid_lower l = min (OPEN l) (CLOSED l)"

definition lid_upper :: "LidLimits \<Rightarrow> int" where
  "lid_upper l = max (OPEN l) (CLOSED l)"

definition between_incl :: "int \<Rightarrow> int \<Rightarrow> int \<Rightarrow> bool" where
  "between_incl lo hi p = (lo \<le> p \<and> p \<le> hi)"

definition movement_invariant :: "MovementLimits \<Rightarrow> bool" where
  "movement_invariant m =
     (lim_MIN m < lim_MAX m \<and>
      between_incl (lim_MIN m) (lim_MAX m) (lim_CENTER m) \<and>
      between_incl ABSOLUTE_MIN_PULSE ABSOLUTE_MAX_PULSE (lim_MIN m) \<and>
      between_incl ABSOLUTE_MIN_PULSE ABSOLUTE_MAX_PULSE (lim_MAX m))"

definition lid_invariant :: "LidLimits \<Rightarrow> bool" where
  "lid_invariant l =
     (lid_lower l < lid_upper l \<and>
      between_incl (lid_lower l) (lid_upper l) (OPEN l) \<and>
      between_incl (lid_lower l) (lid_upper l) (CLOSED l) \<and>
      between_incl (lid_lower l) (lid_upper l) (HALF l) \<and>
      between_incl ABSOLUTE_MIN_PULSE ABSOLUTE_MAX_PULSE (lid_lower l) \<and>
      between_incl ABSOLUTE_MIN_PULSE ABSOLUTE_MAX_PULSE (lid_upper l))"

definition half_strictly_between :: "LidLimits \<Rightarrow> bool" where
  "half_strictly_between l = (lid_lower l < HALF l \<and> HALF l < lid_upper l)"

text \<open>
  The midpoint as the comments compute it, \<^verbatim>\<open>(OPEN + CLOSED) / 2\<close> in C integer
  arithmetic. Both operands are positive in every struct, where C's truncating division
  and \<open>div\<close> agree.
\<close>

definition lid_midpoint :: "LidLimits \<Rightarrow> int" where
  "lid_midpoint l = (OPEN l + CLOSED l) div 2"

section \<open>The Registry and the Motion Controller of the specification\<close>

text \<open>
  The sources declare constants and nothing that consumes them: the ChannelLimits Registry
  (specification, sections 3 and 4.1) and the Motion Controller (section 4.2) have no code
  in the repository. The definitions of this section are written from the specification's
  words, over the constants above. The specification names no numeric type for a pulse
  inside the controller and no rounding; pulses are real numbers here, the configured
  bounds are the integers of the structs, and the division of the smoothing step is exact.
\<close>

text \<open>
  Modelled from the spec: the ChannelLimits record of section 3, which the sources lack (they
  have one struct per channel). A movement channel has the reference point centerPulse, an
  eyelid channel the reference points openPulse, closedPulse and halfPulse.
\<close>

datatype RefPoints =
    Movement (centerPulse: int)
  | Eyelid (openPulse: int) (closedPulse: int) (halfPulse: int)

record ChannelLimits =
  channel :: int
  minPulse :: int
  maxPulse :: int
  refs :: RefPoints
  inverted :: bool

text \<open>
  Modelled from the spec: the static table of section 6 ("a static table of ChannelLimits per
  channel"), one entry per struct of EyeConfig.h. A movement struct gives its MIN and MAX
  as the bounds; an eyelid struct has none, and its bounds are the ends of its travel.
\<close>

definition movement_channel :: "int \<Rightarrow> MovementLimits \<Rightarrow> ChannelLimits" where
  "movement_channel ch m =
     \<lparr>channel = ch, minPulse = lim_MIN m, maxPulse = lim_MAX m,
      refs = Movement (lim_CENTER m), inverted = lim_INVERTED m\<rparr>"

definition lid_channel :: "int \<Rightarrow> LidLimits \<Rightarrow> ChannelLimits" where
  "lid_channel ch l =
     \<lparr>channel = ch, minPulse = lid_lower l, maxPulse = lid_upper l,
      refs = Eyelid (OPEN l) (CLOSED l) (HALF l), inverted = lid_INVERTED l\<rparr>"

text \<open>
  Modelled from the spec: the table's entries for channel 0 (HorizontalLimits) and channel 3
  (LeftLowerLid), the two channels the worked examples below run on.
\<close>

definition horizontal_channel :: ChannelLimits where
  "horizontal_channel = movement_channel SERVO_HORIZONTAL HorizontalLimits"

definition left_lower_lid_channel :: ChannelLimits where
  "left_lower_lid_channel = lid_channel SERVO_L_LOWER LeftLowerLid"

text \<open>
  Modelled from the spec: the conditions of section 4.1 under which load does not fail for a
  channel: minPulse < maxPulse, every reference point within [minPulse, maxPulse], and
  both bounds within the global floor and ceiling. Every channel of a loaded Registry
  satisfies them, since load fails when one of them is violated.
\<close>

definition reference_points :: "ChannelLimits \<Rightarrow> int list" where
  "reference_points c =
     (case refs c of Movement ce \<Rightarrow> [ce] | Eyelid op cl ha \<Rightarrow> [op, cl, ha])"

definition valid_channel :: "ChannelLimits \<Rightarrow> bool" where
  "valid_channel c =
     (minPulse c < maxPulse c \<and>
      list_all (between_incl (minPulse c) (maxPulse c)) (reference_points c) \<and>
      between_incl ABSOLUTE_MIN_PULSE ABSOLUTE_MAX_PULSE (minPulse c) \<and>
      between_incl ABSOLUTE_MIN_PULSE ABSOLUTE_MAX_PULSE (maxPulse c))"

text \<open>
  Modelled from the spec: clamp of section 4.1, "returns pulse clamped to [minPulse, maxPulse]
  for that channel".
\<close>

definition clamp :: "ChannelLimits \<Rightarrow> real \<Rightarrow> real" where
  "clamp c pulse =
     (if pulse < of_int (minPulse c) then of_int (minPulse c)
      else if of_int (maxPulse c) < pulse then of_int (maxPulse c)
      else pulse)"

text \<open>
  Modelled from the spec: mapLogical of section 4.1, "linear interpolation between the
  channel's two reference points, with inverted swapping which reference point corresponds
  to logical 0.0". The two reference points of an eyelid channel are openPulse and
  closedPulse. A movement channel has the single reference point centerPulse, so the two
  ends of its interpolation are its bounds, as the end-to-end scenario of section 8 has it
  (full left on the inverted horizontal channel is maxPulse).
\<close>

definition reference_pair :: "ChannelLimits \<Rightarrow> int \<times> int" where
  "reference_pair c =
     (case refs c of
        Movement ce \<Rightarrow> (minPulse c, maxPulse c)
      | Eyelid op cl ha \<Rightarrow> (op, cl))"

definition mapLogical :: "ChannelLimits \<Rightarrow> real \<Rightarrow> real" where
  "mapLogical c logicalValue =
     (case (if inverted c then prod.swap (reference_pair c) else reference_pair c) of
        (at0, at1) \<Rightarrow> of_int at0 + (of_int at1 - of_int at0) * logicalValue)"

text \<open>
  Modelled from the spec: the channel c' of the inversion-symmetry property of section 8,
  "the same channel with inverted=false and identical reference points swapped", in its
  two parts. Swapping the reference points of a movement channel swaps its bounds.
\<close>

definition swap_reference_points :: "ChannelLimits \<Rightarrow> ChannelLimits" where
  "swap_reference_points c =
     (case refs c of
        Movement ce \<Rightarrow> c\<lparr>minPulse := maxPulse c, maxPulse := minPulse c\<rparr>
      | Eyelid op cl ha \<Rightarrow> c\<lparr>refs := Eyelid cl op ha\<rparr>)"

definition not_inverted :: "ChannelLimits \<Rightarrow> ChannelLimits" where
  "not_inverted c = c\<lparr>inverted := False\<rparr>"

text \<open>
  Modelled from the spec: AxisState of section 3, the run-time state of one channel.
\<close>

record AxisState =
  currentPulse :: real
  targetPulse :: real
  lastUpdateTimestamp :: int

definition state_in_range :: "ChannelLimits \<Rightarrow> AxisState \<Rightarrow> bool" where
  "state_in_range c s =
     (of_int (minPulse c) \<le> currentPulse s \<and> currentPulse s \<le> of_int (maxPulse c))"

text \<open>
  Modelled from the spec: step 1 of tick (section 4.2), "if |rawInput - center| < DEADZONE,
  treat input as exactly center"; center is the joystick's, NunchuckCalibration::CENTER.
\<close>

definition applyDeadzone :: "int \<Rightarrow> int" where
  "applyDeadzone rawInput =
     (if \<bar>rawInput - NunchuckCalibration_CENTER\<bar> < DEADZONE
      then NunchuckCalibration_CENTER else rawInput)"

text \<open>
  Modelled from the spec: step 2 of tick, "map deadzone-adjusted input linearly to the
  channel's logical range via the Registry, honoring inverted". The joystick's calibrated
  range is sent linearly onto the logical range 0.0 to 1.0 (the X axis for the horizontal
  channel, the Y axis otherwise), and mapLogical gives the target pulse. An input outside
  the calibrated range gives a logical value outside 0.0 to 1.0; nothing is rejected.
\<close>

definition joystick_range :: "ChannelLimits \<Rightarrow> int \<times> int" where
  "joystick_range c =
     (if channel c = SERVO_HORIZONTAL then (JOY_X_MIN, JOY_X_MAX) else (JOY_Y_MIN, JOY_Y_MAX))"

definition joystick_span :: "ChannelLimits \<Rightarrow> int" where
  "joystick_span c = snd (joystick_range c) - fst (joystick_range c)"

definition joystick_logical :: "ChannelLimits \<Rightarrow> int \<Rightarrow> real" where
  "joystick_logical c input =
     of_int (input - fst (joystick_range c)) / of_int (joystick_span c)"

definition mapped_target :: "ChannelLimits \<Rightarrow> int \<Rightarrow> real" where
  "mapped_target c rawInput = mapLogical c (joystick_logical c (applyDeadzone rawInput))"

text \<open>
  Modelled from the spec: step 3 of tick, "currentPulse += (target - currentPulse) /
  smoothingFactor, where smoothingFactor is a per-category constant (distinct for
  eye-movement vs. eyelid channels)": the step that the smoothing asks for.
\<close>

definition smoothingFactor :: "ChannelLimits \<Rightarrow> int" where
  "smoothingFactor c =
     (case refs c of Movement ce \<Rightarrow> EYE_SMOOTHING | Eyelid op cl ha \<Rightarrow> EYELID_SMOOTHING)"

definition smoothed_step :: "ChannelLimits \<Rightarrow> int \<Rightarrow> AxisState \<Rightarrow> real" where
  "smoothed_step c rawInput s =
     (mapped_target c rawInput - currentPulse s) / of_int (smoothingFactor c)"

text \<open>
  Modelled from the spec: step 4 of tick, "clamp the per-tick delta to MAX_DELTA_PER_UPDATE;
  if the smoothed step would exceed it, cap it, preserving direction".
\<close>

definition capDelta :: "real \<Rightarrow> real" where
  "capDelta delta =
     (if of_int MAX_DELTA_PER_UPDATE < delta then of_int MAX_DELTA_PER_UPDATE
      else if delta < - of_int MAX_DELTA_PER_UPDATE then - of_int MAX_DELTA_PER_UPDATE
      else delta)"

text \<open>
  Modelled from the spec: tick of section 4.2, with the AxisState passed in and returned.
  dt is the time since the channel's last update. Step 6 comes first in the definition
  because it decides whether steps 1 to 5 run at all: a call before
  MIN_UPDATE_INTERVAL_MS has elapsed returns the previous output and leaves the state as
  it is. Otherwise the capped step is added to currentPulse, the sum is clamped to the
  channel's range (step 5), and currentPulse and lastUpdateTimestamp are updated; the
  stored target is the clamped one, as section 3 bounds targetPulse. The result is a
  pulse in every case: the specification gives tick no error result.
\<close>

definition tick :: "ChannelLimits \<Rightarrow> int \<Rightarrow> int \<Rightarrow> AxisState \<Rightarrow> real \<times> AxisState" where
  "tick c rawInput dt s =
     (if dt < MIN_UPDATE_INTERVAL_MS then (currentPulse s, s)
      else
        let pulse = clamp c (currentPulse s + capDelta (smoothed_step c rawInput s))
        in (pulse,
            s\<lparr>currentPulse := pulse,
              targetPulse := clamp c (mapped_target c rawInput),
              lastUpdateTimestamp := lastUpdateTimestamp s + dt\<rparr>))"

text \<open>
  Modelled from the spec: an AxisState of the horizontal channel at rest, both pulses at the
  channel's centre (345); the specification does not say how an AxisState starts, and this
  one serves only as the start of the worked examples.
\<close>

definition rest_state :: AxisState where
  "rest_state = \<lparr>currentPulse = 345, targetPulse = 345, lastUpdateTimestamp = 0\<rparr>"

section \<open>Properties of the calibration constants\<close>

lemmas limit_structs =
  HorizontalLimits_def VerticalLimits_def LeftUpperLid_def LeftLowerLid_def
  RightUpperLid_def RightLowerLid_def

lemmas safety_consts =
  ABSOLUTE_MIN_PULSE_def ABSOLUTE_MAX_PULSE_def MAX_DELTA_PER_UPDATE_def
  MIN_UPDATE_INTERVAL_MS_def

text \<open>
  Claim C3. The reference calibration satisfies the data invariants on all six channels:
  the lower bound is strictly below the upper bound, every reference point (CENTER of the
  two movement structs; OPEN, CLOSED and HALF of the four eyelid structs) lies within the
  channel's bounds, and every bound lies within the global range from ABSOLUTE_MIN_PULSE = 100
  to ABSOLUTE_MAX_PULSE = 650.
\<close>

theorem reference_calibration_invariants:
  "movement_invariant HorizontalLimits \<and> movement_invariant VerticalLimits \<and>
   lid_invariant LeftUpperLid \<and> lid_invariant LeftLowerLid \<and>
   lid_invariant RightUpperLid \<and> lid_invariant RightLowerLid \<and>
   ABSOLUTE_MIN_PULSE = 100 \<and> ABSOLUTE_MAX_PULSE = 650"
  by (simp add: movement_invariant_def lid_invariant_def between_incl_def lid_lower_def
      lid_upper_def limit_structs safety_consts)

text \<open>
  Claim C8. LeftUpperLid::CLOSED is 410 and not the 610 of the struct's documentation
  comment. The same holds of the other two structs the claim names: the members of
  RightUpperLid and RightLowerLid differ from the calibration data their comments list,
  so the comments cannot be read in place of the members.
\<close>

theorem left_upper_closed_is_410:
  "CLOSED LeftUpperLid = 410 \<and> CLOSED LeftUpperLid_comment = 610 \<and>
   CLOSED LeftUpperLid \<noteq> CLOSED LeftUpperLid_comment \<and>
   OPEN LeftUpperLid \<noteq> OPEN LeftUpperLid_comment \<and>
   CLOSED RightUpperLid \<noteq> CLOSED RightUpperLid_comment \<and>
   OPEN RightUpperLid \<noteq> OPEN RightUpperLid_comment \<and>
   CLOSED RightLowerLid \<noteq> CLOSED RightLowerLid_comment \<and>
   OPEN RightLowerLid \<noteq> OPEN RightLowerLid_comment"
  by (simp add: limit_structs LeftUpperLid_comment_def RightUpperLid_comment_def
      RightLowerLid_comment_def)

text \<open>
  Claim C9. In each of the four eyelid structs HALF lies strictly between OPEN and CLOSED,
  although HALF is not in every struct the integer midpoint of OPEN and CLOSED: it is the
  midpoint in LeftLowerLid only (340), and differs from it in LeftUpperLid (335 against
  355), RightUpperLid (340 against 317) and RightLowerLid (325 against 337).
\<close>

theorem half_between_open_and_closed:
  "half_strictly_between LeftUpperLid \<and> half_strictly_between LeftLowerLid \<and>
   half_strictly_between RightUpperLid \<and> half_strictly_between RightLowerLid \<and>
   HALF LeftLowerLid = lid_midpoint LeftLowerLid \<and>
   HALF LeftUpperLid \<noteq> lid_midpoint LeftUpperLid \<and>
   HALF RightUpperLid \<noteq> lid_midpoint RightUpperLid \<and>
   HALF RightLowerLid \<noteq> lid_midpoint RightLowerLid"
  by (simp add: half_strictly_between_def lid_midpoint_def lid_lower_def lid_upper_def
      limit_structs)

text \<open>
  Claim C10. NunchuckCalibration::CENTER = 126 is the integer midpoint of the X axis,
  (26 + 226) / 2, and the Y axis has the same bounds as the X axis, so the one CENTER is
  the midpoint of both axes.
\<close>

theorem nunchuck_center_is_midpoint:
  "NunchuckCalibration_CENTER = 126 \<and>
   NunchuckCalibration_CENTER = (JOY_X_MIN + JOY_X_MAX) div 2 \<and>
   JOY_X_MIN = 26 \<and> JOY_X_MAX = 226 \<and>
   JOY_Y_MIN = JOY_X_MIN \<and> JOY_Y_MAX = JOY_X_MAX \<and>
   NunchuckCalibration_CENTER = (JOY_Y_MIN + JOY_Y_MAX) div 2"
  by (simp add: NunchuckCalibration_CENTER_def JOY_X_MIN_def JOY_X_MAX_def JOY_Y_MIN_def
      JOY_Y_MAX_def)

section \<open>Properties of the Registry and the Motion Controller\<close>

subsection \<open>The steps of tick\<close>

lemmas joystick_consts =
  NunchuckCalibration_CENTER_def JOY_X_MIN_def JOY_X_MAX_def JOY_Y_MIN_def JOY_Y_MAX_def
  DEADZONE_def

lemmas tick_steps =
  clamp_def capDelta_def smoothed_step_def mapped_target_def mapLogical_def
  reference_pair_def joystick_logical_def joystick_span_def joystick_range_def
  applyDeadzone_def smoothingFactor_def

lemmas reference_channels =
  horizontal_channel_def left_lower_lid_channel_def movement_channel_def lid_channel_def
  lid_lower_def lid_upper_def limit_structs SERVO_HORIZONTAL_def SERVO_L_LOWER_def

lemma valid_channel_bounds:
  assumes "valid_channel c"
  shows "minPulse c < maxPulse c" and "ABSOLUTE_MIN_PULSE \<le> minPulse c"
    and "maxPulse c \<le> ABSOLUTE_MAX_PULSE"
  using assms by (simp_all add: valid_channel_def between_incl_def)

lemma clamp_lower: "minPulse c \<le> maxPulse c \<Longrightarrow> of_int (minPulse c) \<le> clamp c p"
  by (simp add: clamp_def)

lemma clamp_upper: "minPulse c \<le> maxPulse c \<Longrightarrow> clamp c p \<le> of_int (maxPulse c)"
  by (simp add: clamp_def)

lemma clamp_moves_no_further:
  assumes "of_int (minPulse c) \<le> cur" and "cur \<le> of_int (maxPulse c)"
  shows "\<bar>clamp c (cur + d) - cur\<bar> \<le> \<bar>d\<bar>"
  using assms by (simp add: clamp_def)

lemma clamp_keeps_side:
  assumes "of_int (minPulse c) \<le> cur" and "cur \<le> of_int (maxPulse c)"
  shows "0 \<le> (clamp c (cur + d) - cur) * d"
proof (cases "0 \<le> d")
  case True
  with assms have "0 \<le> clamp c (cur + d) - cur" by (simp add: clamp_def)
  with True show ?thesis by simp
next
  case False
  with assms have "clamp c (cur + d) - cur \<le> 0" by (simp add: clamp_def)
  with False show ?thesis by (simp add: mult_nonpos_nonpos)
qed

lemma capDelta_abs: "\<bar>capDelta d\<bar> \<le> of_int MAX_DELTA_PER_UPDATE"
  by (auto simp: capDelta_def MAX_DELTA_PER_UPDATE_def)

lemma capDelta_sgn: "sgn (capDelta d) = sgn d"
  by (simp add: capDelta_def MAX_DELTA_PER_UPDATE_def sgn_if)

lemma capDelta_same_side: "0 \<le> capDelta d * d"
  by (auto simp: capDelta_def MAX_DELTA_PER_UPDATE_def zero_le_mult_iff)

lemma smoothingFactor_pos: "0 < smoothingFactor c"
  by (simp add: smoothingFactor_def EYE_SMOOTHING_def EYELID_SMOOTHING_def
      split: RefPoints.splits)

lemma joystick_span_pos: "0 < joystick_span c"
  by (simp add: joystick_span_def joystick_range_def joystick_consts)

lemma tick_output_is_current: "currentPulse (snd (tick c rawInput dt s)) = fst (tick c rawInput dt s)"
  by (simp add: tick_def Let_def)

lemma tick_skipped: "dt < MIN_UPDATE_INTERVAL_MS \<Longrightarrow> tick c rawInput dt s = (currentPulse s, s)"
  by (simp add: tick_def)

lemma tick_updated:
  "MIN_UPDATE_INTERVAL_MS \<le> dt \<Longrightarrow>
   fst (tick c rawInput dt s) = clamp c (currentPulse s + capDelta (smoothed_step c rawInput s))"
  by (simp add: tick_def Let_def)

lemma tick_output_bounds:
  assumes "minPulse c \<le> maxPulse c" and "state_in_range c s \<or> MIN_UPDATE_INTERVAL_MS \<le> dt"
  shows "of_int (minPulse c) \<le> fst (tick c rawInput dt s)"
    and "fst (tick c rawInput dt s) \<le> of_int (maxPulse c)"
proof -
  show "of_int (minPulse c) \<le> fst (tick c rawInput dt s)"
  proof (cases "dt < MIN_UPDATE_INTERVAL_MS")
    case True
    with assms(2) show ?thesis by (simp add: tick_skipped state_in_range_def)
  next
    case False
    with assms(1) show ?thesis by (simp add: tick_updated clamp_lower)
  qed
  show "fst (tick c rawInput dt s) \<le> of_int (maxPulse c)"
  proof (cases "dt < MIN_UPDATE_INTERVAL_MS")
    case True
    with assms(2) show ?thesis by (simp add: tick_skipped state_in_range_def)
  next
    case False
    with assms(1) show ?thesis by (simp add: tick_updated clamp_upper)
  qed
qed

lemma tick_keeps_state_in_range:
  assumes "minPulse c \<le> maxPulse c" and "state_in_range c s \<or> MIN_UPDATE_INTERVAL_MS \<le> dt"
  shows "state_in_range c (snd (tick c rawInput dt s))"
  using tick_output_bounds [OF assms] by (simp add: state_in_range_def tick_output_is_current)

lemma tick_step_bounded:
  assumes "state_in_range c s"
  shows "\<bar>fst (tick c rawInput dt s) - currentPulse s\<bar> \<le> of_int MAX_DELTA_PER_UPDATE"
proof (cases "dt < MIN_UPDATE_INTERVAL_MS")
  case True
  then show ?thesis by (simp add: tick_skipped MAX_DELTA_PER_UPDATE_def)
next
  case False
  from assms have "\<bar>clamp c (currentPulse s + capDelta (smoothed_step c rawInput s)) - currentPulse s\<bar>
      \<le> \<bar>capDelta (smoothed_step c rawInput s)\<bar>"
    by (simp add: state_in_range_def clamp_moves_no_further)
  also have "\<dots> \<le> of_int MAX_DELTA_PER_UPDATE" by (rule capDelta_abs)
  finally show ?thesis using False by (simp add: tick_updated)
qed

lemma tick_step_direction:
  assumes "state_in_range c s"
  shows "0 \<le> (fst (tick c rawInput dt s) - currentPulse s) * smoothed_step c rawInput s"
proof (cases "dt < MIN_UPDATE_INTERVAL_MS")
  case True
  then show ?thesis by (simp add: tick_skipped)
next
  case False
  let ?d = "smoothed_step c rawInput s"
  let ?m = "clamp c (currentPulse s + capDelta ?d) - currentPulse s"
  from assms have a: "0 \<le> ?m * capDelta ?d"
    by (simp add: state_in_range_def clamp_keeps_side)
  have b: "0 \<le> capDelta ?d * ?d" by (rule capDelta_same_side)
  have "0 \<le> ?m * ?d"
  proof (cases "capDelta ?d = 0")
    case True
    then have "?d = 0" using capDelta_sgn [of ?d] by (simp add: sgn_if split: if_splits)
    then show ?thesis by simp
  next
    case False
    from a b have "0 \<le> (?m * capDelta ?d) * (capDelta ?d * ?d)" by (rule mult_nonneg_nonneg)
    then have "0 \<le> (?m * ?d) * (capDelta ?d * capDelta ?d)" by (simp add: mult_ac)
    moreover from False have "0 < capDelta ?d * capDelta ?d" by (auto simp: zero_less_mult_iff)
    ultimately show ?thesis by (simp add: zero_le_mult_iff)
  qed
  with False show ?thesis by (simp add: tick_updated)
qed

subsection \<open>The properties of tick and mapLogical\<close>

lemma horizontal_channel_valid: "valid_channel horizontal_channel"
  by (simp add: valid_channel_def between_incl_def reference_points_def reference_channels
      safety_consts)

lemma rest_state_in_range: "state_in_range horizontal_channel rest_state"
  by (simp add: state_in_range_def rest_state_def reference_channels)

text \<open>
  Claim C1. For every channel that satisfies the load conditions and every raw joystick
  input, tick returns a pulse within the channel's inclusive range [minPulse, maxPulse],
  which lies within ABSOLUTE_MIN_PULSE = 100 and ABSOLUTE_MAX_PULSE = 650. A tick that
  arrives before the update interval has elapsed returns the stored currentPulse, so the
  stored pulse is taken to be in the channel's range; every tick leaves it there, and a
  tick that updates puts it there whatever it was. tick has a pulse as its result for
  every input, inside or outside the joystick's calibrated range, and the two divisions it
  performs have positive divisors.
\<close>

theorem tick_output_within_safe_range:
  assumes "valid_channel c" and "state_in_range c s \<or> MIN_UPDATE_INTERVAL_MS \<le> dt"
  shows "of_int (minPulse c) \<le> fst (tick c rawInput dt s) \<and>
         fst (tick c rawInput dt s) \<le> of_int (maxPulse c) \<and>
         of_int ABSOLUTE_MIN_PULSE \<le> fst (tick c rawInput dt s) \<and>
         fst (tick c rawInput dt s) \<le> of_int ABSOLUTE_MAX_PULSE \<and>
         state_in_range c (snd (tick c rawInput dt s)) \<and>
         0 < smoothingFactor c \<and> 0 < joystick_span c"
proof -
  from assms(1) have le: "minPulse c \<le> maxPulse c"
    and lo: "ABSOLUTE_MIN_PULSE \<le> minPulse c" and hi: "maxPulse c \<le> ABSOLUTE_MAX_PULSE"
    by (simp_all add: valid_channel_bounds less_imp_le)
  note b = tick_output_bounds [OF le assms(2), of rawInput]
  from lo have "real_of_int ABSOLUTE_MIN_PULSE \<le> of_int (minPulse c)" by simp
  with b(1) have abs_lo: "of_int ABSOLUTE_MIN_PULSE \<le> fst (tick c rawInput dt s)" by linarith
  from hi have "real_of_int (maxPulse c) \<le> of_int ABSOLUTE_MAX_PULSE" by simp
  with b(2) have abs_hi: "fst (tick c rawInput dt s) \<le> of_int ABSOLUTE_MAX_PULSE" by linarith
  from b abs_lo abs_hi tick_keeps_state_in_range [OF le assms(2), of rawInput]
    smoothingFactor_pos [of c] joystick_span_pos [of c]
  show ?thesis by simp
qed

theorem tick_output_within_safe_range_witness:
  "valid_channel horizontal_channel \<and> state_in_range horizontal_channel rest_state \<and>
   fst (tick horizontal_channel 26 20 rest_state) = 2885 / 8 \<and>
   220 \<le> fst (tick horizontal_channel 26 20 rest_state) \<and>
   fst (tick horizontal_channel 26 20 rest_state) \<le> 470 \<and>
   fst (tick horizontal_channel 1000 20 (rest_state\<lparr>currentPulse := 225\<rparr>)) = 220"
proof -
  have ev: "fst (tick horizontal_channel 26 20 rest_state) = 2885 / 8"
    by (simp add: tick_def Let_def tick_steps reference_channels joystick_consts
        safety_consts EYE_SMOOTHING_def rest_state_def)
  have ev2: "fst (tick horizontal_channel 1000 20 (rest_state\<lparr>currentPulse := 225\<rparr>)) = 220"
    by (simp add: tick_def Let_def tick_steps reference_channels joystick_consts
        safety_consts EYE_SMOOTHING_def rest_state_def)
  have "minPulse horizontal_channel = 220" "maxPulse horizontal_channel = 470"
    by (simp_all add: reference_channels)
  with tick_output_within_safe_range [OF horizontal_channel_valid,
      of rest_state 20 26] rest_state_in_range horizontal_channel_valid ev ev2
  show ?thesis by simp
qed

text \<open>
  Claim C4. For two consecutive ticks on the same channel the outputs differ by at most
  MAX_DELTA_PER_UPDATE = 50. The capped step has the sign of the smoothed step it caps, and
  the move that the second tick makes is never against the direction of its smoothed step.
\<close>

theorem consecutive_ticks_step_bounded:
  fixes c :: ChannelLimits and s0 :: AxisState and raw1 dt1 :: int
  defines "s1 \<equiv> snd (tick c raw1 dt1 s0)"
  assumes "valid_channel c" and "state_in_range c s0 \<or> MIN_UPDATE_INTERVAL_MS \<le> dt1"
  shows "\<bar>fst (tick c raw2 dt2 s1) - fst (tick c raw1 dt1 s0)\<bar> \<le> of_int MAX_DELTA_PER_UPDATE \<and>
         MAX_DELTA_PER_UPDATE = 50 \<and>
         sgn (capDelta (smoothed_step c raw2 s1)) = sgn (smoothed_step c raw2 s1) \<and>
         0 \<le> (fst (tick c raw2 dt2 s1) - fst (tick c raw1 dt1 s0)) * smoothed_step c raw2 s1"
proof -
  from assms(2) have le: "minPulse c \<le> maxPulse c"
    by (simp add: valid_channel_bounds less_imp_le)
  have ok: "state_in_range c s1"
    unfolding s1_def by (rule tick_keeps_state_in_range [OF le assms(3)])
  have cur: "currentPulse s1 = fst (tick c raw1 dt1 s0)"
    unfolding s1_def by (rule tick_output_is_current)
  from tick_step_bounded [OF ok, of raw2 dt2] tick_step_direction [OF ok, of raw2 dt2]
    capDelta_sgn [of "smoothed_step c raw2 s1"]
  show ?thesis by (simp add: cur MAX_DELTA_PER_UPDATE_def)
qed

theorem consecutive_ticks_step_bounded_witness:
  "valid_channel horizontal_channel \<and> state_in_range horizontal_channel rest_state \<and>
   fst (tick horizontal_channel 26 20 rest_state) = 2885 / 8 \<and>
   fst (tick horizontal_channel 1000 20 (snd (tick horizontal_channel 26 20 rest_state))) = 2485 / 8 \<and>
   \<bar>fst (tick horizontal_channel 1000 20 (snd (tick horizontal_channel 26 20 rest_state)))
      - fst (tick horizontal_channel 26 20 rest_state)\<bar> \<le> 50"
proof -
  have ev: "tick horizontal_channel 26 20 rest_state =
      (2885 / 8, \<lparr>currentPulse = 2885 / 8, targetPulse = 470, lastUpdateTimestamp = 20\<rparr>)"
    by (simp add: tick_def Let_def tick_steps reference_channels joystick_consts
        safety_consts EYE_SMOOTHING_def rest_state_def)
  have ev2: "fst (tick horizontal_channel 1000 20
      \<lparr>currentPulse = 2885 / 8, targetPulse = 470, lastUpdateTimestamp = 20\<rparr>) = 2485 / 8"
    by (simp add: tick_def Let_def tick_steps reference_channels joystick_consts
        safety_consts EYE_SMOOTHING_def)
  from consecutive_ticks_step_bounded [OF horizontal_channel_valid,
      of rest_state 20 1000 20 26] rest_state_in_range horizontal_channel_valid ev ev2
  show ?thesis by (simp add: MAX_DELTA_PER_UPDATE_def)
qed

text \<open>
  Claim C7. For every channel, a raw input whose distance from the joystick centre is
  strictly less than DEADZONE = 10 gives the same tick result (output and state) as the raw
  input exactly at the centre.
\<close>

theorem deadzone_input_acts_as_center:
  assumes "\<bar>rawInput - NunchuckCalibration_CENTER\<bar> < DEADZONE"
  shows "tick c rawInput dt s = tick c NunchuckCalibration_CENTER dt s \<and> DEADZONE = 10"
proof -
  from assms have "applyDeadzone rawInput = applyDeadzone NunchuckCalibration_CENTER"
    by (simp add: applyDeadzone_def DEADZONE_def)
  then have "mapped_target c rawInput = mapped_target c NunchuckCalibration_CENTER"
    by (simp add: mapped_target_def)
  then show ?thesis
    by (simp add: tick_def smoothed_step_def DEADZONE_def)
qed

theorem deadzone_input_acts_as_center_witness:
  "\<bar>130 - NunchuckCalibration_CENTER\<bar> < DEADZONE \<and>
   tick horizontal_channel 130 20 rest_state = tick horizontal_channel 126 20 rest_state \<and>
   fst (tick horizontal_channel 130 20 rest_state) = 345 \<and>
   fst (tick horizontal_channel 136 20 rest_state) = 5495 / 16"
proof -
  have h: "\<bar>130 - NunchuckCalibration_CENTER\<bar> < DEADZONE"
    by (simp add: joystick_consts)
  have ev: "fst (tick horizontal_channel 126 20 rest_state) = 345"
    by (simp add: tick_def Let_def tick_steps reference_channels joystick_consts
        safety_consts EYE_SMOOTHING_def rest_state_def)
  have ev2: "fst (tick horizontal_channel 136 20 rest_state) = 5495 / 16"
    by (simp add: tick_def Let_def tick_steps reference_channels joystick_consts
        safety_consts EYE_SMOOTHING_def rest_state_def)
  from deadzone_input_acts_as_center [OF h, of horizontal_channel 20 rest_state] h ev ev2
  show ?thesis by (simp add: NunchuckCalibration_CENTER_def)
qed

lemma reference_pair_swapped:
  "reference_pair (swap_reference_points c) = prod.swap (reference_pair c)"
  by (simp add: reference_pair_def swap_reference_points_def split: RefPoints.splits)

text \<open>
  Claim C5, as amended. For a channel c with inverted = true and every logical value v,
  mapLogical c v equals mapLogical c' (1 - v) where c' is the same channel with
  inverted = false and the same reference points; equivalently it equals mapLogical c'' v
  where c'' has inverted = false and the two reference points swapped. Swapping the
  reference points and mirroring v at once, as the claim is stated, inverts twice.
\<close>

theorem inverted_mapLogical_symmetry:
  assumes "inverted c"
  shows "mapLogical c v = mapLogical (not_inverted c) (1 - v) \<and>
         mapLogical c v = mapLogical (not_inverted (swap_reference_points c)) v"
proof -
  obtain a b where ab: "reference_pair c = (a, b)" by (cases "reference_pair c")
  have same: "reference_pair (not_inverted c) = reference_pair c"
    by (simp add: reference_pair_def not_inverted_def split: RefPoints.splits)
  have sw: "reference_pair (not_inverted (swap_reference_points c)) = (b, a)"
    using reference_pair_swapped [of c] ab
    by (simp add: reference_pair_def not_inverted_def split: RefPoints.splits)
  have "mapLogical c v = of_int b + (of_int a - of_int b) * v"
    using assms ab by (simp add: mapLogical_def)
  moreover have "mapLogical (not_inverted c) (1 - v) = of_int a + (of_int b - of_int a) * (1 - v)"
    using same ab by (simp add: mapLogical_def not_inverted_def)
  moreover have "mapLogical (not_inverted (swap_reference_points c)) v
      = of_int b + (of_int a - of_int b) * v"
    using sw by (simp add: mapLogical_def not_inverted_def)
  ultimately show ?thesis by (simp add: algebra_simps)
qed

theorem inverted_mapLogical_symmetry_witness:
  "inverted left_lower_lid_channel \<and>
   mapLogical left_lower_lid_channel (1 / 4) = 370 \<and>
   mapLogical (not_inverted left_lower_lid_channel) (1 - 1 / 4) = 370 \<and>
   mapLogical (not_inverted (swap_reference_points left_lower_lid_channel)) (1 / 4) = 370"
proof -
  have inv: "inverted left_lower_lid_channel" by (simp add: reference_channels)
  have ev: "mapLogical left_lower_lid_channel (1 / 4) = 370"
    by (simp add: mapLogical_def reference_pair_def reference_channels)
  from inverted_mapLogical_symmetry [OF inv, of "1 / 4"] inv ev
  show ?thesis by simp
qed

text \<open>
  The property as stated fails on the left lower eyelid (OPEN = 280, CLOSED = 400,
  inverted): at logical 0.0 the inverted channel is at CLOSED, 400, while the channel with
  inverted = false and the reference points swapped is at 280 for logical 1 - 0.0.
\<close>

theorem inversion_symmetry_as_stated_counterexample:
  "inverted left_lower_lid_channel \<and>
   mapLogical left_lower_lid_channel 0 = 400 \<and>
   mapLogical (not_inverted (swap_reference_points left_lower_lid_channel)) (1 - 0) = 280 \<and>
   mapLogical left_lower_lid_channel 0
     \<noteq> mapLogical (not_inverted (swap_reference_points left_lower_lid_channel)) (1 - 0)"
  by (simp add: mapLogical_def reference_pair_def swap_reference_points_def not_inverted_def
      reference_channels)

end
